theory Spec2Isabelle
  imports Complex_Main
begin

section \<open>The integrator of \<^verbatim>\<open>integracao/integracao.py\<close>\<close>

text \<open>
  The class \<^verbatim>\<open>RK4\<close> integrates the N-body problem with numpy arrays of floats.
  The embedding keeps the shape of the code and idealises the numbers: a float is a
  \<^typ>\<open>real\<close>, an array is a nested list (one level per axis), and every operator of
  numpy that the class calls has a counterpart on nested lists.

  Two things numpy does have no counterpart in the reals, and both are written out as
  results of the sum type \<open>error + 'a\<close>:
  \<^item> numpy raises \<^verbatim>\<open>ValueError\<close> on most ill-shaped operands and silently broadcasts a
    few of them (an axis of length one). Ill-shaped input is outside this development:
    the model answers \<open>ShapeError\<close> on every operand whose shape is not the one the
    class is written for, and follows broadcasting only where the class relies on it
    (the positions \<^verbatim>\<open>[[Ri] for Ri in R]\<close> of shape N x 1 x D, and the scalar start
    value of Python's \<^verbatim>\<open>sum\<close>).
  \<^item> \<^verbatim>\<open>true_divide\<close> does not raise on a zero denominator: it warns, stores inf
    or nan, and the computation goes on. The model stops there with \<open>NonFinite\<close>, so
    a result \<open>Inr\<close> is one in which no division by zero took place. (With rows of
    length 0 numpy drops the quotients again and returns empty arrays; the model
    answers \<open>NonFinite\<close> there too.)
  The Python exceptions the class can raise by itself are \<open>ZeroDivisionError\<close>
  (\<^verbatim>\<open>1/mi\<close> on Python numbers), \<open>UnboundLocalError\<close> (the local \<^verbatim>\<open>F\<close> of
  \<^verbatim>\<open>aplicarNVezes\<close>) and \<open>AttributeError\<close> (\<^verbatim>\<open>sum(F).tolist()\<close> on an empty
  \<^verbatim>\<open>F\<close>, where \<^verbatim>\<open>sum\<close> returns the int 0).
\<close>

datatype error = ZeroDivisionError | UnboundLocalError | AttributeError | ShapeError | NonFinite

type_synonym mat = "real list list"
type_synonym ten = "real list list list"

subsection \<open>The numpy operators the class uses\<close>

definition ones :: "nat \<Rightarrow> nat \<Rightarrow> mat" where
  "ones n m = replicate n (replicate m 1)"

definition identity :: "nat \<Rightarrow> mat" where
  "identity n = map (\<lambda>i. map (\<lambda>j. if i = j then 1 else 0) [0..<n]) [0..<n]"

text \<open>\<^verbatim>\<open>transpose\<close> of a two-dimensional array, and \<^verbatim>\<open>X.transpose(1,0,2)\<close> of a
  three-dimensional one (the entries are then rows): the first two axes are swapped.
  An array without rows (shape \<^verbatim>\<open>(0,)\<close>) is its own transpose.\<close>

definition transpose_np :: "'a list list \<Rightarrow> 'a list list" where
  "transpose_np A =
     (case A of [] \<Rightarrow> [] | r # _ \<Rightarrow> map (\<lambda>j. map (\<lambda>row. row ! j) A) [0..<length r])"

text \<open>Elementwise operators on operands of equal shape.\<close>

definition mul2 :: "mat \<Rightarrow> mat \<Rightarrow> mat" where
  "mul2 A B = map2 (map2 (*)) A B"

definition add2 :: "mat \<Rightarrow> mat \<Rightarrow> mat" where
  "add2 A B = map2 (map2 (+)) A B"

definition sub3 :: "ten \<Rightarrow> ten \<Rightarrow> ten" where
  "sub3 X Y = map2 (map2 (map2 (-))) X Y"

definition scale2 :: "real \<Rightarrow> mat \<Rightarrow> mat" where
  "scale2 c A = map (map ((*) c)) A"

definition scale3 :: "real \<Rightarrow> ten \<Rightarrow> ten" where
  "scale3 c X = map (map (map ((*) c))) X"

definition power2d :: "mat \<Rightarrow> real \<Rightarrow> mat" where
  "power2d A p = map (map (\<lambda>x. x powr p)) A"

definition same_shape :: "mat \<Rightarrow> mat \<Rightarrow> bool" where
  "same_shape A B \<longleftrightarrow> map length A = map length B"

text \<open>An axis of length one is read at index 0 whatever the index asked for
  (numpy's broadcasting).\<close>

definition bcast :: "'a list \<Rightarrow> nat \<Rightarrow> 'a" where
  "bcast xs j = (if length xs = 1 then xs ! 0 else xs ! j)"

text \<open>\<^verbatim>\<open>einsum('ij,ijk->ijk', A, X)\<close>: entry \<open>[i][j][k]\<close> is \<open>A[i][j] * X[i][j][k]\<close>.\<close>

definition einsum_ij_ijk :: "mat \<Rightarrow> ten \<Rightarrow> ten" where
  "einsum_ij_ijk A X =
     map2 (\<lambda>Ai Xi. map (\<lambda>j. map ((*) (Ai ! j)) (bcast Xi j)) [0..<length Ai]) A X"

text \<open>\<^verbatim>\<open>einsum('ijk,ijk->ij', X, Y)\<close>: entry \<open>[i][j]\<close> is the sum over \<open>k\<close> of
  \<open>X[i][j][k] * Y[i][j][k]\<close>.\<close>

definition einsum_ijk_ijk_ij :: "ten \<Rightarrow> ten \<Rightarrow> mat" where
  "einsum_ijk_ijk_ij X Y = map2 (map2 (\<lambda>x y. sum_list (map2 (*) x y))) X Y"

text \<open>\<^verbatim>\<open>true_divide(A, B)\<close>; a zero denominator ends the model (see above).\<close>

definition true_divide :: "mat \<Rightarrow> mat \<Rightarrow> error + mat" where
  "true_divide A B =
     (if \<exists>row \<in> set B. 0 \<in> set row then Inl NonFinite else Inr (map2 (map2 (/)) A B))"

text \<open>Python's built-in \<^verbatim>\<open>sum(F)\<close> followed by \<^verbatim>\<open>.tolist()\<close>: the iteration is over
  the first axis, \<^verbatim>\<open>((0 + F[0]) + F[1]) + ...\<close>, so entry \<open>[j][k]\<close> of the result is the
  sum over \<open>i\<close> of \<open>F[i][j][k]\<close>. numpy's own \<^verbatim>\<open>sum\<close> is not among the names the
  module imports from numpy, and the star import of \<^verbatim>\<open>auxiliares.hamiltoniano\<close>, a module
  that is not among the sources, is taken not to rebind \<^verbatim>\<open>sum\<close>. On an empty
  \<^verbatim>\<open>F\<close> the sum is the int 0, which has no \<^verbatim>\<open>tolist\<close>.\<close>

definition py_sum :: "ten \<Rightarrow> error + mat" where
  "py_sum F =
     (case F of [] \<Rightarrow> Inl AttributeError
      | F0 # Fs \<Rightarrow> Inr (foldl add2 (map (map ((+) 0)) F0) Fs))"

subsection \<open>The class\<close>

record RK4 =
  dimensao :: int
  qntd :: nat
  h :: real
  G :: real
  massas :: "real list"
  massasDuplicadasInvertidas :: mat
  prodM :: mat
  vetorUm :: mat
  identidade :: mat

text \<open>The rows \<^verbatim>\<open>[1/mi for i in range(self.dimensao)] for mi in massas\<close>. The division
  is Python's: it raises on \<open>mi = 0\<close>, at the first such mass, and only if the inner
  range is not empty.\<close>

fun inverted_rows :: "int \<Rightarrow> real list \<Rightarrow> error + mat" where
  "inverted_rows d [] = Inr []"
| "inverted_rows d (mi # ms) =
     (if 0 < d \<and> mi = 0 then Inl ZeroDivisionError
      else case inverted_rows d ms of
             Inl e \<Rightarrow> Inl e
           | Inr rows \<Rightarrow> Inr (replicate (nat d) (1 / mi) # rows))"

definition guardar_massas :: "RK4 \<Rightarrow> real list \<Rightarrow> error + RK4" where
  "guardar_massas self ms =
     (let self1 = self\<lparr>massas := ms\<rparr> in
      case inverted_rows (dimensao self1) ms of
        Inl e \<Rightarrow> Inl e
      | Inr rows \<Rightarrow>
          let self2 = self1\<lparr>massasDuplicadasInvertidas := rows\<rparr>;
              MA = map (\<lambda>i. map (\<lambda>j. if j = i then 0 else massas self2 ! j)
                                [0..<qntd self2])
                       [0..<qntd self2]
          in Inr (self2\<lparr>prodM := mul2 MA (transpose_np MA)\<rparr>))"

text \<open>\<^verbatim>\<open>RK4.__init__\<close>. The fields that the constructor has not assigned yet are empty
  lists in the record.\<close>

definition RK4_init :: "real list \<Rightarrow> real \<Rightarrow> real \<Rightarrow> int \<Rightarrow> error + RK4" where
  "RK4_init ms step grav d =
     (let self = \<lparr>dimensao = d, qntd = length ms, h = step, G = grav, massas = [],
                  massasDuplicadasInvertidas = [], prodM = [], vetorUm = [],
                  identidade = []\<rparr>
      in case guardar_massas self ms of
           Inl e \<Rightarrow> Inl e
         | Inr self1 \<Rightarrow>
             Inr (self1\<lparr>vetorUm := ones (qntd self1) (qntd self1),
                        identidade := identity (qntd self1)\<rparr>))"

text \<open>The intermediate arrays of \<^verbatim>\<open>forcas\<close>, lines 86 to 94: the positions spread
  over a second axis, their pairwise differences, and the denominators.\<close>

definition difX_of :: "RK4 \<Rightarrow> mat \<Rightarrow> ten" where
  "difX_of self R =
     (let X = einsum_ij_ijk (vetorUm self) (map (\<lambda>Ri. [Ri]) R)
      in sub3 X (transpose_np X))"

definition norma_of :: "RK4 \<Rightarrow> mat \<Rightarrow> mat" where
  "norma_of self R =
     (let difX = difX_of self R
      in add2 (power2d (einsum_ijk_ijk_ij difX difX) (3 / 2)) (identidade self))"

text \<open>\<^verbatim>\<open>forcas\<close>. The guard is the shape the method is written for: \<open>R\<close> has
  \<open>qntd\<close> rows of one common length and at least one row (numpy refuses the empty
  list in \<^verbatim>\<open>einsum\<close>, as it has one axis only).\<close>

definition forcas :: "RK4 \<Rightarrow> mat \<Rightarrow> error + (ten \<times> mat)" where
  "forcas self R =
     (if R = [] \<or> length R \<noteq> qntd self \<or> (\<exists>Ri \<in> set R. length Ri \<noteq> length (hd R))
      then Inl ShapeError
      else
        let difX = difX_of self R;
            norma = norma_of self R
        in case true_divide (prodM self) norma of
             Inl e \<Rightarrow> Inl e
           | Inr F0 \<Rightarrow>
               let F = scale3 (G self) (einsum_ij_ijk F0 difX)
               in (case py_sum F of
                     Inl e \<Rightarrow> Inl e
                   | Inr FSomas \<Rightarrow> Inr (F, FSomas)))"

text \<open>\<^verbatim>\<open>runge_kutta4\<close>. All four arrays have the shape of
  \<^verbatim>\<open>massasDuplicadasInvertidas\<close>.\<close>

definition runge_kutta4 :: "RK4 \<Rightarrow> mat \<Rightarrow> mat \<Rightarrow> mat \<Rightarrow> error + (mat \<times> mat)" where
  "runge_kutta4 self R P FSomas =
     (let W = massasDuplicadasInvertidas self in
      if \<not> (same_shape P W \<and> same_shape R W \<and> same_shape FSomas W) then Inl ShapeError
      else
        let k1_vet = mul2 P W;
            k1_1m = mul2 k1_vet W;
            k1_2m = mul2 k1_1m W;
            k1_3m = mul2 k1_2m W;
            fator = scale2 (h self / 6)
                      (add2 (add2 (add2 (scale2 6 k1_vet) (scale2 (3 * h self) k1_1m))
                                  (scale2 ((h self)\<^sup>2) k1_2m))
                            (scale2 (0.25 * (h self) ^ 3) k1_3m));
            novas_posicoes = add2 R fator;
            novos_momentos = add2 P (scale2 (h self) FSomas)
        in Inr (novas_posicoes, novos_momentos))"

text \<open>The loop of \<^verbatim>\<open>aplicarNVezes\<close>, with the locals \<^verbatim>\<open>R\<close>, \<^verbatim>\<open>P\<close> and \<^verbatim>\<open>F\<close> as
  its state; \<^verbatim>\<open>F\<close> is unbound (\<open>None\<close>) until the body has run once.\<close>

fun aplicar_loop :: "RK4 \<Rightarrow> nat \<Rightarrow> mat \<Rightarrow> mat \<Rightarrow> ten option \<Rightarrow> error + (mat \<times> mat \<times> ten option)" where
  "aplicar_loop self 0 R P F = Inr (R, P, F)"
| "aplicar_loop self (Suc n) R P F =
     (case forcas self R of
        Inl e \<Rightarrow> Inl e
      | Inr (F', FSomas) \<Rightarrow>
          (case runge_kutta4 self R P FSomas of
             Inl e \<Rightarrow> Inl e
           | Inr (R', P') \<Rightarrow> aplicar_loop self n R' P' (Some F')))"

text \<open>\<^verbatim>\<open>aplicarNVezes\<close>: \<^verbatim>\<open>range(n)\<close> is empty for \<open>n \<le> 0\<close>, and \<^verbatim>\<open>return R, P, F\<close>
  reads the local \<^verbatim>\<open>F\<close>. The fourth parameter \<^verbatim>\<open>E\<close> may be any Python object.\<close>

definition aplicarNVezes :: "RK4 \<Rightarrow> mat \<Rightarrow> mat \<Rightarrow> int \<Rightarrow> 'e \<Rightarrow> error + (mat \<times> mat \<times> ten)" where
  "aplicarNVezes self R P n E =
     (case aplicar_loop self (nat n) R P None of
        Inl e \<Rightarrow> Inl e
      | Inr (R', P', None) \<Rightarrow> Inl UnboundLocalError
      | Inr (R', P', Some F) \<Rightarrow> Inr (R', P', F))"

text \<open>The entry \<open>[i][j]\<close> of \<^verbatim>\<open>einsum('ijk,ijk->ij', difX, difX)\<close> in terms of the
  rows \<open>a = R[i]\<close> and \<open>b = R[j]\<close>: the squared distance of the two positions. It is
  not a function of the source; the proofs name this expression.\<close>

definition sqdist :: "real list \<Rightarrow> real list \<Rightarrow> real" where
  "sqdist a b = sum_list (map2 (*) (map2 (-) a b) (map2 (-) a b))"

text \<open>The two-body scenario of the specification: masses \<open>[1.0, 1.0]\<close>, \<open>G = 1\<close>,
  dimension 1 and \<open>h = 0.01\<close>, as the constructor builds it (lemma \<open>two_body_init\<close>).\<close>

abbreviation two_body :: RK4 where
  "two_body \<equiv> \<lparr>dimensao = 1, qntd = 2, h = 1 / 100, G = 1, massas = [1, 1],
      massasDuplicadasInvertidas = [[1], [1]], prodM = [[0, 1], [1, 0]],
      vetorUm = [[1, 1], [1, 1]], identidade = [[1, 0], [0, 1]]\<rparr>"

section \<open>Shapes and entries of the array operators\<close>

lemma length_ones: "length (ones n m) = n"
  by (simp add: ones_def)

lemma nth_ones: "i < n \<Longrightarrow> ones n m ! i = replicate m 1"
  by (simp add: ones_def)

lemma length_identity: "length (identity n) = n"
  by (simp add: identity_def)

lemma nth_identity: "i < n \<Longrightarrow> identity n ! i = map (\<lambda>j. if i = j then 1 else 0) [0..<n]"
  by (simp add: identity_def)

lemma transpose_np_nth:
  assumes "A \<noteq> []" "j < length (hd A)"
  shows "transpose_np A ! j = map (\<lambda>row. row ! j) A"
  using assms by (cases A) (simp_all add: transpose_np_def)

lemma length_transpose_np: "A \<noteq> [] \<Longrightarrow> length (transpose_np A) = length (hd A)"
  by (cases A) (simp_all add: transpose_np_def)

lemma length_add2: "length (add2 A B) = min (length A) (length B)"
  by (simp add: add2_def)

lemma nth_add2: "i < length A \<Longrightarrow> i < length B \<Longrightarrow> add2 A B ! i = map2 (+) (A ! i) (B ! i)"
  by (simp add: add2_def)

lemma length_mul2: "length (mul2 A B) = min (length A) (length B)"
  by (simp add: mul2_def)

lemma nth_mul2: "i < length A \<Longrightarrow> i < length B \<Longrightarrow> mul2 A B ! i = map2 (*) (A ! i) (B ! i)"
  by (simp add: mul2_def)

lemma length_scale2: "length (scale2 c A) = length A"
  by (simp add: scale2_def)

lemma nth_scale2: "i < length A \<Longrightarrow> scale2 c A ! i = map ((*) c) (A ! i)"
  by (simp add: scale2_def)

lemma same_shape_iff:
  "same_shape A B \<longleftrightarrow> length A = length B \<and> (\<forall>i < length A. length (A ! i) = length (B ! i))"
  unfolding same_shape_def
  by (auto simp: list_eq_iff_nth_eq)

section \<open>The constructor\<close>

lemma inverted_rows_eq:
  "inverted_rows d ms =
     (if 0 < d \<and> 0 \<in> set ms then Inl ZeroDivisionError
      else Inr (map (\<lambda>m. replicate (nat d) (1 / m)) ms))"
  by (induction ms) auto

lemma prodM_table:
  fixes ms :: "real list"
  defines "MA \<equiv> map (\<lambda>i. map (\<lambda>j. if j = i then 0 else ms ! j) [0..<length ms]) [0..<length ms]"
  shows "mul2 MA (transpose_np MA) =
     map (\<lambda>i. map (\<lambda>j. if j = i then 0 else ms ! i * ms ! j) [0..<length ms]) [0..<length ms]"
proof (cases "ms = []")
  case True
  then show ?thesis by (simp add: MA_def mul2_def transpose_np_def)
next
  case False
  then have ne: "MA \<noteq> []" by (simp add: MA_def)
  have hd: "length (hd MA) = length ms"
    using False by (simp add: MA_def hd_map hd_upt)
  have len: "length (transpose_np MA) = length ms"
    using ne hd by (simp add: length_transpose_np)
  show ?thesis
  proof (rule nth_equalityI)
    show "length (mul2 MA (transpose_np MA)) = length (map (\<lambda>i. map (\<lambda>j. if j = i then 0 else ms ! i * ms ! j) [0..<length ms]) [0..<length ms])"
      using len by (simp add: length_mul2 MA_def)
  next
    fix i assume "i < length (mul2 MA (transpose_np MA))"
    then have i: "i < length ms" using len by (simp add: length_mul2)
    have t: "transpose_np MA ! i = map (\<lambda>row. row ! i) MA"
      using ne hd i by (simp add: transpose_np_nth)
    have "mul2 MA (transpose_np MA) ! i = map2 (*) (MA ! i) (map (\<lambda>row. row ! i) MA)"
      using i len t by (simp add: nth_mul2 MA_def)
    also have "\<dots> = map (\<lambda>j. if j = i then 0 else ms ! i * ms ! j) [0..<length ms]"
      using i by (auto simp: MA_def intro!: nth_equalityI)
    finally show "mul2 MA (transpose_np MA) ! i = map (\<lambda>i. map (\<lambda>j. if j = i then 0 else ms ! i * ms ! j) [0..<length ms]) [0..<length ms] ! i"
      using i by simp
  qed
qed

lemma RK4_init_eq:
  "RK4_init ms step grav d =
     (if 0 < d \<and> 0 \<in> set ms then Inl ZeroDivisionError
      else Inr \<lparr>dimensao = d, qntd = length ms, h = step, G = grav, massas = ms,
                massasDuplicadasInvertidas = map (\<lambda>m. replicate (nat d) (1 / m)) ms,
                prodM = map (\<lambda>i. map (\<lambda>j. if j = i then 0 else ms ! i * ms ! j)
                                    [0..<length ms]) [0..<length ms],
                vetorUm = ones (length ms) (length ms),
                identidade = identity (length ms)\<rparr>)"
  by (simp add: RK4_init_def guardar_massas_def inverted_rows_eq prodM_table Let_def cong: if_cong)

lemma RK4_init_fields:
  assumes "RK4_init ms step grav d = Inr self"
  shows "qntd self = length ms" and "G self = grav" and "h self = step"
    and "dimensao self = d" and "massas self = ms"
    and "vetorUm self = ones (length ms) (length ms)"
    and "identidade self = identity (length ms)"
    and "prodM self = map (\<lambda>i. map (\<lambda>j. if j = i then 0 else ms ! i * ms ! j)
                                    [0..<length ms]) [0..<length ms]"
    and "massasDuplicadasInvertidas self = map (\<lambda>m. replicate (nat d) (1 / m)) ms"
    and "0 < d \<Longrightarrow> 0 \<notin> set ms"
proof -
  have ok: "\<not> (0 < d \<and> 0 \<in> set ms)"
    using assms by (auto simp: RK4_init_eq)
  then show "0 < d \<Longrightarrow> 0 \<notin> set ms" by blast
  have self: "self = \<lparr>dimensao = d, qntd = length ms, h = step, G = grav, massas = ms,
                massasDuplicadasInvertidas = map (\<lambda>m. replicate (nat d) (1 / m)) ms,
                prodM = map (\<lambda>i. map (\<lambda>j. if j = i then 0 else ms ! i * ms ! j)
                                    [0..<length ms]) [0..<length ms],
                vetorUm = ones (length ms) (length ms),
                identidade = identity (length ms)\<rparr>"
    using assms ok by (simp add: RK4_init_eq)
  show "qntd self = length ms" and "G self = grav" and "h self = step"
    and "dimensao self = d" and "massas self = ms"
    and "vetorUm self = ones (length ms) (length ms)"
    and "identidade self = identity (length ms)"
    and "prodM self = map (\<lambda>i. map (\<lambda>j. if j = i then 0 else ms ! i * ms ! j)
                                    [0..<length ms]) [0..<length ms]"
    and "massasDuplicadasInvertidas self = map (\<lambda>m. replicate (nat d) (1 / m)) ms"
    by (simp_all add: self)
qed

lemma prodM_nth:
  assumes "RK4_init ms step grav d = Inr self" and "i < length ms" and "j < length ms"
  shows "prodM self ! i ! j = (if i = j then 0 else ms ! i * ms ! j)"
  using assms(2,3) by (auto simp: RK4_init_fields(8) [OF assms(1)])

section \<open>Entries of the intermediate arrays\<close>

lemma bcast_nth: "j < length xs \<Longrightarrow> bcast xs j = xs ! j"
  by (auto simp: bcast_def)

lemma spread_positions:
  assumes "length R = n"
  shows "einsum_ij_ijk (ones n n) (map (\<lambda>Ri. [Ri]) R) = map (\<lambda>Ri. replicate n Ri) R"
proof (rule nth_equalityI)
  show "length (einsum_ij_ijk (ones n n) (map (\<lambda>Ri. [Ri]) R)) = length (map (\<lambda>Ri. replicate n Ri) R)"
    using assms by (simp add: einsum_ij_ijk_def length_ones)
next
  fix i assume "i < length (einsum_ij_ijk (ones n n) (map (\<lambda>Ri. [Ri]) R))"
  then have i: "i < n" using assms by (simp add: einsum_ij_ijk_def length_ones)
  have "einsum_ij_ijk (ones n n) (map (\<lambda>Ri. [Ri]) R) ! i =
        map (\<lambda>j. map ((*) (replicate n 1 ! j)) (R ! i)) [0..<n]"
    using i assms by (simp add: einsum_ij_ijk_def length_ones nth_ones bcast_def)
  also have "\<dots> = map (\<lambda>j. R ! i) [0..<n]"
    by (rule map_cong) (simp_all add: map_idI)
  also have "\<dots> = replicate n (R ! i)"
    by (simp add: map_replicate_const)
  finally show "einsum_ij_ijk (ones n n) (map (\<lambda>Ri. [Ri]) R) ! i = map (\<lambda>Ri. replicate n Ri) R ! i"
    using i assms by simp
qed

lemma transpose_spread:
  assumes "length R = n" "0 < n"
  shows "transpose_np (map (\<lambda>Ri. replicate n Ri) R) = replicate n R"
proof -
  from assms obtain r rs where R: "R = r # rs" by (cases R) auto
  have "transpose_np (map (\<lambda>Ri. replicate n Ri) R) =
        map (\<lambda>j. map (\<lambda>row. row ! j) (map (\<lambda>Ri. replicate n Ri) R)) [0..<n]"
    by (simp add: transpose_np_def R)
  also have "\<dots> = map (\<lambda>j. R) [0..<n]"
    by (rule map_cong) (simp_all add: map_idI o_def)
  also have "\<dots> = replicate n R"
    by (simp add: map_replicate_const)
  finally show ?thesis .
qed

lemma difX_of_eq:
  assumes "vetorUm self = ones n n" "length R = n" "0 < n"
  shows "difX_of self R = map (\<lambda>Ri. map (\<lambda>Rj. map2 (-) Ri Rj) R) R"
proof -
  have "difX_of self R = sub3 (map (\<lambda>Ri. replicate n Ri) R) (replicate n R)"
    using assms by (simp add: difX_of_def spread_positions transpose_spread)
  also have "\<dots> = map (\<lambda>Ri. map (\<lambda>Rj. map2 (-) Ri Rj) R) R"
    using assms(2)
    by (auto simp: sub3_def intro!: nth_equalityI)
  finally show ?thesis .
qed

lemma sum_list_squares:
  fixes a b :: "real list"
  assumes "length a = D" "length b = D"
  shows "sum_list (map2 (*) (map2 (-) a b) (map2 (-) a b)) = (\<Sum>k<D. (a ! k - b ! k)\<^sup>2)"
proof -
  have "sum_list (map2 (*) (map2 (-) a b) (map2 (-) a b)) =
        (\<Sum>k = 0..<D. map2 (*) (map2 (-) a b) (map2 (-) a b) ! k)"
    using assms by (simp add: sum_list_sum_nth)
  also have "\<dots> = (\<Sum>k = 0..<D. (a ! k - b ! k)\<^sup>2)"
    using assms by (intro sum.cong refl) (simp add: power2_eq_square)
  finally show ?thesis by (simp add: atLeast0LessThan)
qed

lemma norma_of_eq:
  assumes "vetorUm self = ones n n" "identidade self = identity n" "length R = n" "0 < n"
  shows "norma_of self R =
           map (\<lambda>i. map (\<lambda>j. sqdist (R ! i) (R ! j) powr (3 / 2) + (if i = j then 1 else 0))
                         [0..<n]) [0..<n]"
proof -
  have d: "difX_of self R = map (\<lambda>Ri. map (\<lambda>Rj. map2 (-) Ri Rj) R) R"
    using assms by (simp add: difX_of_eq)
  have e: "einsum_ijk_ijk_ij (difX_of self R) (difX_of self R) =
           map (\<lambda>Ri. map (\<lambda>Rj. sqdist Ri Rj) R) R"
    unfolding d einsum_ijk_ijk_ij_def sqdist_def
    by (auto intro!: nth_equalityI)
  show ?thesis
    unfolding norma_of_def Let_def e assms(2)
    using assms(3)
    by (auto simp: power2d_def add2_def identity_def intro!: nth_equalityI)
qed

lemma foldl_add2_entries:
  assumes "\<forall>M \<in> set Ms. length M = n \<and> (\<forall>j<n. length (M ! j) = D)"
    and "length A = n" and "\<forall>j<n. length (A ! j) = D"
  shows "length (foldl add2 A Ms) = n \<and>
         (\<forall>j<n. length (foldl add2 A Ms ! j) = D \<and>
                (\<forall>k<D. foldl add2 A Ms ! j ! k = A ! j ! k + (\<Sum>M\<leftarrow>Ms. M ! j ! k)))"
  using assms
proof (induction Ms arbitrary: A)
  case Nil
  then show ?case by simp
next
  case (Cons M Ms)
  have M: "length M = n" "\<forall>j<n. length (M ! j) = D"
    using Cons.prems(1) by simp_all
  have len: "length (add2 A M) = n"
    using Cons.prems(2) M(1) by (simp add: length_add2)
  have row: "\<forall>j<n. length (add2 A M ! j) = D"
    using Cons.prems(2,3) M by (simp add: nth_add2)
  have ent: "\<forall>j<n. \<forall>k<D. add2 A M ! j ! k = A ! j ! k + M ! j ! k"
    using Cons.prems(2,3) M by (simp add: nth_add2)
  have rest: "\<forall>M \<in> set Ms. length M = n \<and> (\<forall>j<n. length (M ! j) = D)"
    using Cons.prems(1) by simp
  from Cons.IH [OF rest len row] ent show ?case
    by (simp add: add.assoc)
qed

lemma py_sum_entries:
  assumes "F \<noteq> []" and "\<forall>M \<in> set F. length M = n \<and> (\<forall>j<n. length (M ! j) = D)"
  shows "\<exists>FS. py_sum F = Inr FS \<and> length FS = n \<and>
           (\<forall>j<n. length (FS ! j) = D \<and> (\<forall>k<D. FS ! j ! k = (\<Sum>i<length F. F ! i ! j ! k)))"
proof -
  from assms(1) obtain F0 Fs where F: "F = F0 # Fs" by (cases F) auto
  let ?A = "map (map ((+) 0)) F0"
  have F0: "length F0 = n" "\<forall>j<n. length (F0 ! j) = D"
    using assms(2) F by simp_all
  have A: "length ?A = n" "\<forall>j<n. length (?A ! j) = D"
    using F0 by simp_all
  have rest: "\<forall>M \<in> set Fs. length M = n \<and> (\<forall>j<n. length (M ! j) = D)"
    using assms(2) F by simp
  note fold = foldl_add2_entries [OF rest A]
  have total: "(\<Sum>i<length F. F ! i ! j ! k) = F0 ! j ! k + (\<Sum>M\<leftarrow>Fs. M ! j ! k)" for j k
  proof -
    have "(\<Sum>i<length F. F ! i ! j ! k) = (\<Sum>M\<leftarrow>F. M ! j ! k)"
      by (simp add: sum_list_sum_nth atLeast0LessThan)
    then show ?thesis by (simp add: F)
  qed
  have "py_sum F = Inr (foldl add2 ?A Fs)"
    by (simp add: py_sum_def F)
  moreover have "length (foldl add2 ?A Fs) = n"
    using fold by blast
  moreover have "\<forall>j<n. length (foldl add2 ?A Fs ! j) = D \<and>
       (\<forall>k<D. foldl add2 ?A Fs ! j ! k = (\<Sum>i<length F. F ! i ! j ! k))"
    using fold F0 by (simp add: total)
  ultimately show ?thesis by blast
qed

lemma length_einsum_ij_ijk: "length (einsum_ij_ijk A X) = min (length A) (length X)"
  by (simp add: einsum_ij_ijk_def)

lemma nth_einsum_ij_ijk:
  assumes "i < length A" "i < length X"
  shows "einsum_ij_ijk A X ! i = map (\<lambda>j. map ((*) (A ! i ! j)) (bcast (X ! i) j)) [0..<length (A ! i)]"
  using assms by (simp add: einsum_ij_ijk_def)

lemma true_divide_Inr:
  assumes "true_divide A B = Inr Q"
  shows "Q = map2 (map2 (/)) A B" and "\<forall>row \<in> set B. 0 \<notin> set row"
proof -
  have "\<not> (\<exists>row \<in> set B. 0 \<in> set row)"
  proof
    assume "\<exists>row \<in> set B. 0 \<in> set row"
    then have "true_divide A B = Inl NonFinite"
      unfolding true_divide_def by (rule if_P)
    with assms show False by simp
  qed
  then show "\<forall>row \<in> set B. 0 \<notin> set row" by blast
  then show "Q = map2 (map2 (/)) A B"
    using assms by (simp add: true_divide_def)
qed

lemma force_entry:
  assumes i: "i < n" and j: "j < n"
    and lenF0: "length F0 = n" and lenX: "length X = n" and lenXi: "length (X ! i) = n"
    and lenF0i: "length (F0 ! i) = n"
  shows "scale3 g (einsum_ij_ijk F0 X) ! i ! j = map (\<lambda>x. g * (F0 ! i ! j * x)) (X ! i ! j)"
proof -
  have "scale3 g (einsum_ij_ijk F0 X) ! i = map (map ((*) g)) (einsum_ij_ijk F0 X ! i)"
    using i lenF0 lenX by (simp add: scale3_def length_einsum_ij_ijk)
  also have "einsum_ij_ijk F0 X ! i = map (\<lambda>j. map ((*) (F0 ! i ! j)) (bcast (X ! i) j)) [0..<n]"
    using i lenF0 lenX lenF0i by (simp add: nth_einsum_ij_ijk)
  finally have "scale3 g (einsum_ij_ijk F0 X) ! i ! j =
      map ((*) g) (map ((*) (F0 ! i ! j)) (bcast (X ! i) j))"
    using j by simp
  also have "bcast (X ! i) j = X ! i ! j"
    using j lenXi by (simp add: bcast_nth)
  finally show ?thesis by (simp add: o_def)
qed

lemma force_lengths:
  assumes i: "i < n" and lenF0: "length F0 = n" and lenX: "length X = n"
    and lenF0i: "length (F0 ! i) = n"
  shows "length (scale3 g (einsum_ij_ijk F0 X)) = n"
    and "length (scale3 g (einsum_ij_ijk F0 X) ! i) = n"
proof -
  show "length (scale3 g (einsum_ij_ijk F0 X)) = n"
    using lenF0 lenX by (simp add: scale3_def length_einsum_ij_ijk)
  have "scale3 g (einsum_ij_ijk F0 X) ! i = map (map ((*) g)) (einsum_ij_ijk F0 X ! i)"
    using i lenF0 lenX by (simp add: scale3_def length_einsum_ij_ijk)
  also have "einsum_ij_ijk F0 X ! i = map (\<lambda>j. map ((*) (F0 ! i ! j)) (bcast (X ! i) j)) [0..<n]"
    using i lenF0 lenX lenF0i by (simp add: nth_einsum_ij_ijk)
  finally show "length (scale3 g (einsum_ij_ijk F0 X) ! i) = n"
    by simp
qed

lemma quotient_entry:
  assumes "i < n" "j < n" "length A = n" "length B = n" "length (A ! i) = n" "length (B ! i) = n"
  shows "map2 (map2 (/)) A B ! i ! j = A ! i ! j / B ! i ! j"
    and "length (map2 (map2 (/)) A B ! i) = n"
  using assms by simp_all

section \<open>The forces\<close>

lemma forcas_guard:
  assumes "forcas self R = Inr x"
  shows "R \<noteq> []" and "length R = qntd self" and "\<forall>Ri \<in> set R. length Ri = length (hd R)"
proof -
  have "\<not> (R = [] \<or> length R \<noteq> qntd self \<or> (\<exists>Ri \<in> set R. length Ri \<noteq> length (hd R)))"
  proof
    assume "R = [] \<or> length R \<noteq> qntd self \<or> (\<exists>Ri \<in> set R. length Ri \<noteq> length (hd R))"
    then have "forcas self R = Inl ShapeError"
      unfolding forcas_def by (rule if_P)
    with assms show False by simp
  qed
  then show "R \<noteq> []" and "length R = qntd self" and "\<forall>Ri \<in> set R. length Ri = length (hd R)"
    by blast+
qed

lemma forcas_body:
  assumes "R \<noteq> []" and "length R = qntd self" and "\<forall>Ri \<in> set R. length Ri = length (hd R)"
  shows "forcas self R =
     (case true_divide (prodM self) (norma_of self R) of
        Inl e \<Rightarrow> Inl e
      | Inr F0 \<Rightarrow>
          (case py_sum (scale3 (G self) (einsum_ij_ijk F0 (difX_of self R))) of
             Inl e \<Rightarrow> Inl e
           | Inr FSomas \<Rightarrow> Inr (scale3 (G self) (einsum_ij_ijk F0 (difX_of self R)), FSomas)))"
proof -
  have "\<not> (R = [] \<or> length R \<noteq> qntd self \<or> (\<exists>Ri \<in> set R. length Ri \<noteq> length (hd R)))"
    using assms by blast
  then show ?thesis
    unfolding forcas_def Let_def by (rule if_not_P)
qed

lemma forcas_parts:
  assumes "forcas self R = Inr (F, FS)"
  obtains F0 where "true_divide (prodM self) (norma_of self R) = Inr F0"
    and "F = scale3 (G self) (einsum_ij_ijk F0 (difX_of self R))"
    and "py_sum F = Inr FS"
proof -
  note g = forcas_guard [OF assms]
  from assms have *: "(case true_divide (prodM self) (norma_of self R) of
        Inl e \<Rightarrow> Inl e
      | Inr F0 \<Rightarrow>
          (case py_sum (scale3 (G self) (einsum_ij_ijk F0 (difX_of self R))) of
             Inl e \<Rightarrow> Inl e
           | Inr FSomas \<Rightarrow> Inr (scale3 (G self) (einsum_ij_ijk F0 (difX_of self R)), FSomas))) = Inr (F, FS)"
    by (simp only: forcas_body [OF g])
  then obtain F0 where td: "true_divide (prodM self) (norma_of self R) = Inr F0"
    by (cases "true_divide (prodM self) (norma_of self R)") simp_all
  from * td obtain FS' where ps: "py_sum (scale3 (G self) (einsum_ij_ijk F0 (difX_of self R))) = Inr FS'"
    by (cases "py_sum (scale3 (G self) (einsum_ij_ijk F0 (difX_of self R)))") simp_all
  from * td ps have "F = scale3 (G self) (einsum_ij_ijk F0 (difX_of self R))" "FS' = FS"
    by simp_all
  with td ps that show thesis by blast
qed

lemma forcas_Inr:
  assumes init: "RK4_init ms step grav d = Inr self" and f: "forcas self R = Inr (F, FS)"
  defines "n \<equiv> length ms" and "D \<equiv> length (hd R)"
  shows "length R = n" and "0 < n" and "\<forall>i<n. length (R ! i) = D"
    and "\<forall>i<n. \<forall>j<n. norma_of self R ! i ! j \<noteq> 0"
    and "length F = n"
    and "\<forall>i<n. length (F ! i) = n"
    and "\<forall>i<n. \<forall>j<n. F ! i ! j =
            map (\<lambda>x. grav * (prodM self ! i ! j / norma_of self R ! i ! j * x))
              (map2 (-) (R ! i) (R ! j))"
    and "length FS = n"
    and "\<forall>j<n. length (FS ! j) = D \<and> (\<forall>k<D. FS ! j ! k = (\<Sum>i<n. F ! i ! j ! k))"
proof -
  note fields = RK4_init_fields [OF init, folded n_def]
  note g = forcas_guard [OF f]
  show lenR: "length R = n"
    using g(2) fields(1) by (simp only:)
  show n: "0 < n"
    using g(1) lenR by (cases R) auto
  have rowsD: "\<forall>Ri \<in> set R. length Ri = D"
    using g(3) unfolding D_def .
  show rows: "\<forall>i<n. length (R ! i) = D"
    using rowsD lenR by (metis nth_mem)
  have dif: "difX_of self R = map (\<lambda>Ri. map (\<lambda>Rj. map2 (-) Ri Rj) R) R"
    using fields(6) lenR n by (rule difX_of_eq)
  have nor: "norma_of self R =
       map (\<lambda>i. map (\<lambda>j. sqdist (R ! i) (R ! j) powr (3 / 2) + (if i = j then 1 else 0))
                     [0..<n]) [0..<n]"
    using fields(6,7) lenR n by (rule norma_of_eq)
  have lenN: "length (norma_of self R) = n" by (simp add: nor)
  have lenNi: "length (norma_of self R ! i) = n" if "i < n" for i
    using that by (simp add: nor)
  from forcas_parts [OF f] obtain F0 where
    td: "true_divide (prodM self) (norma_of self R) = Inr F0"
    and F: "F = scale3 grav (einsum_ij_ijk F0 (difX_of self R))"
    and ps: "py_sum F = Inr FS"
    unfolding fields by blast
  note td' = true_divide_Inr [OF td]
  show nz: "\<forall>i<n. \<forall>j<n. norma_of self R ! i ! j \<noteq> 0"
  proof (intro allI impI)
    fix i j assume ij: "i < n" "j < n"
    have "norma_of self R ! i \<in> set (norma_of self R)"
      using ij(1) lenN by (metis nth_mem)
    then have "0 \<notin> set (norma_of self R ! i)"
      using td'(2) by blast
    moreover have "norma_of self R ! i ! j \<in> set (norma_of self R ! i)"
      using ij lenNi by (metis nth_mem)
    ultimately show "norma_of self R ! i ! j \<noteq> 0" by metis
  qed
  have lenP: "length (prodM self) = n" by (simp add: fields(8))
  have lenPi: "length (prodM self ! i) = n" if "i < n" for i
    using that by (simp add: fields(8))
  have lenF0: "length F0 = n"
    unfolding td'(1) using lenP lenN by simp
  have lenF0i: "length (F0 ! i) = n" if "i < n" for i
    unfolding td'(1) using that lenP lenN lenPi lenNi by (simp add: quotient_entry)
  have F0ij: "F0 ! i ! j = prodM self ! i ! j / norma_of self R ! i ! j" if "i < n" "j < n" for i j
    unfolding td'(1) using that lenP lenN lenPi [OF that(1)] lenNi [OF that(1)]
    by (rule quotient_entry)
  have lenD: "length (difX_of self R) = n"
    using lenR by (simp add: dif)
  have lenDi: "length (difX_of self R ! i) = n" if "i < n" for i
    using lenR that by (simp add: dif)
  have Dij: "difX_of self R ! i ! j = map2 (-) (R ! i) (R ! j)" if "i < n" "j < n" for i j
    using lenR that by (simp add: dif)
  show lenF: "length F = n"
    unfolding F using n lenF0 lenD lenF0i [OF n] by (rule force_lengths)
  show lenFi: "\<forall>i<n. length (F ! i) = n"
    unfolding F using lenF0 lenD lenF0i by (simp add: force_lengths)
  show Fij: "\<forall>i<n. \<forall>j<n. F ! i ! j =
            map (\<lambda>x. grav * (prodM self ! i ! j / norma_of self R ! i ! j * x))
              (map2 (-) (R ! i) (R ! j))"
  proof (intro allI impI)
    fix i j assume ij: "i < n" "j < n"
    have "F ! i ! j = map (\<lambda>x. grav * (F0 ! i ! j * x)) (difX_of self R ! i ! j)"
      unfolding F using ij lenF0 lenD lenDi [OF ij(1)] lenF0i [OF ij(1)] by (rule force_entry)
    then show "F ! i ! j =
            map (\<lambda>x. grav * (prodM self ! i ! j / norma_of self R ! i ! j * x))
              (map2 (-) (R ! i) (R ! j))"
      by (simp only: F0ij [OF ij] Dij [OF ij])
  qed
  have Fne: "F \<noteq> []" using lenF n by auto
  have shape: "\<forall>M \<in> set F. length M = n \<and> (\<forall>j<n. length (M ! j) = D)"
  proof
    fix M assume "M \<in> set F"
    then obtain i where i: "i < n" "M = F ! i"
      using lenF by (metis in_set_conv_nth)
    have "length (M ! j) = D" if "j < n" for j
      using Fij i that rows by simp
    then show "length M = n \<and> (\<forall>j<n. length (M ! j) = D)"
      using lenFi i by blast
  qed
  from py_sum_entries [OF Fne shape] ps lenF
  show "length FS = n"
    and "\<forall>j<n. length (FS ! j) = D \<and> (\<forall>k<D. FS ! j ! k = (\<Sum>i<n. F ! i ! j ! k))"
    by auto
qed

lemma sum_antisymmetric:
  fixes a :: "nat \<Rightarrow> nat \<Rightarrow> real"
  assumes "\<And>i j. i < n \<Longrightarrow> j < n \<Longrightarrow> a i j = - a j i"
  shows "(\<Sum>j<n. \<Sum>i<n. a i j) = 0"
proof -
  let ?S = "\<Sum>j<n. \<Sum>i<n. a i j"
  have "?S = (\<Sum>j<n. \<Sum>i<n. - a j i)"
  proof (intro sum.cong refl)
    fix j i assume "j \<in> {..<n}" and "i \<in> {..<n}"
    then have "i < n" and "j < n" by simp_all
    then show "a i j = - a j i" by (rule assms)
  qed
  also have "\<dots> = - (\<Sum>j<n. \<Sum>i<n. a j i)"
    by (simp add: sum_negf)
  also have "(\<Sum>j<n. \<Sum>i<n. a j i) = ?S"
    by (rule sum.swap)
  finally show ?thesis by simp
qed

lemma norma_entry:
  assumes init: "RK4_init ms step grav d = Inr self" and f: "forcas self R = Inr (F, FS)"
    and i: "i < length ms" and j: "j < length ms"
  shows "norma_of self R ! i ! j =
           (\<Sum>k<length (hd R). (R ! i ! k - R ! j ! k)\<^sup>2) powr (3 / 2) + (if i = j then 1 else 0)"
proof -
  note fields = RK4_init_fields [OF init]
  note fr = forcas_Inr [OF init f]
  have "norma_of self R =
       map (\<lambda>i. map (\<lambda>j. sqdist (R ! i) (R ! j) powr (3 / 2) + (if i = j then 1 else 0))
                     [0..<length ms]) [0..<length ms]"
    using fields(6,7) fr(1,2) by (rule norma_of_eq)
  then have "norma_of self R ! i ! j = sqdist (R ! i) (R ! j) powr (3 / 2) + (if i = j then 1 else 0)"
    using i j by simp
  moreover have "sqdist (R ! i) (R ! j) = (\<Sum>k<length (hd R). (R ! i ! k - R ! j ! k)\<^sup>2)"
    unfolding sqdist_def using fr(3) i j by (intro sum_list_squares) simp_all
  ultimately show ?thesis by simp
qed

lemma norma_symmetric:
  assumes init: "RK4_init ms step grav d = Inr self" and f: "forcas self R = Inr (F, FS)"
    and i: "i < length ms" and j: "j < length ms"
  shows "norma_of self R ! i ! j = norma_of self R ! j ! i"
proof -
  have "(\<Sum>k<length (hd R). (R ! i ! k - R ! j ! k)\<^sup>2) =
        (\<Sum>k<length (hd R). (R ! j ! k - R ! i ! k)\<^sup>2)"
    by (intro sum.cong refl) (rule power2_commute)
  then show ?thesis
    using norma_entry [OF init f i j] norma_entry [OF init f j i] by auto
qed

lemma force_row:
  assumes init: "RK4_init ms step grav d = Inr self" and f: "forcas self R = Inr (F, FS)"
    and i: "i < length ms" and j: "j < length ms"
  shows "F ! i ! j =
            map (\<lambda>x. grav * (prodM self ! i ! j / norma_of self R ! i ! j * x))
              (map2 (-) (R ! i) (R ! j))"
    and "length (R ! i) = length (hd R)" and "length (R ! j) = length (hd R)"
  using forcas_Inr(3,7) [OF init f] i j by blast+

lemma force_length:
  assumes "RK4_init ms step grav d = Inr self" and "forcas self R = Inr (F, FS)"
    and "i < length ms" and "j < length ms"
  shows "length (F ! i ! j) = length (hd R)"
  by (simp add: force_row [OF assms])

lemma force_component:
  assumes "RK4_init ms step grav d = Inr self" and "forcas self R = Inr (F, FS)"
    and "i < length ms" and "j < length ms" and "k < length (hd R)"
  shows "F ! i ! j ! k =
           grav * (prodM self ! i ! j / norma_of self R ! i ! j * (R ! i ! k - R ! j ! k))"
  using assms(5) by (simp add: force_row [OF assms(1-4)])

lemma force_antisymmetric_entry:
  assumes init: "RK4_init ms step grav d = Inr self" and f: "forcas self R = Inr (F, FS)"
    and i: "i < length ms" and j: "j < length ms" and k: "k < length (hd R)"
  shows "F ! i ! j ! k = - F ! j ! i ! k"
proof -
  have p: "prodM self ! i ! j = prodM self ! j ! i"
    using prodM_nth [OF init i j] prodM_nth [OF init j i] by (simp add: mult.commute)
  have n: "norma_of self R ! i ! j = norma_of self R ! j ! i"
    using init f i j by (rule norma_symmetric)
  have alg: "g * (q * (a - b)) = - (g * (q * (b - a)))" for g q a b :: real
    by (simp add: algebra_simps)
  show ?thesis
    unfolding force_component [OF init f i j k] force_component [OF init f j i k] p n
    by (rule alg)
qed

lemma net_force_entry:
  assumes init: "RK4_init ms step grav d = Inr self" and f: "forcas self R = Inr (F, FS)"
    and j: "j < length ms" and k: "k < length (hd R)"
  shows "FS ! j ! k = (\<Sum>i<length ms. F ! i ! j ! k)"
  using forcas_Inr(9) [OF init f] j k by blast

lemma net_force_total_zero:
  assumes init: "RK4_init ms step grav d = Inr self" and f: "forcas self R = Inr (F, FS)"
    and k: "k < length (hd R)"
  shows "(\<Sum>j<length ms. FS ! j ! k) = 0"
proof -
  have "(\<Sum>j<length ms. FS ! j ! k) = (\<Sum>j<length ms. \<Sum>i<length ms. F ! i ! j ! k)"
  proof (intro sum.cong refl)
    fix j assume "j \<in> {..<length ms}"
    then have "j < length ms" by simp
    then show "FS ! j ! k = (\<Sum>i<length ms. F ! i ! j ! k)"
      using init f k by (intro net_force_entry)
  qed
  also have "\<dots> = 0"
  proof (rule sum_antisymmetric)
    fix i j assume "i < length ms" and "j < length ms"
    then show "F ! i ! j ! k = - F ! j ! i ! k"
      using init f k by (intro force_antisymmetric_entry)
  qed
  finally show ?thesis .
qed

lemma sqdist_pos:
  fixes a b :: "real list"
  assumes "length a = D" "length b = D" "a \<noteq> b"
  shows "0 < sqdist a b"
proof -
  from assms obtain k where k: "k < D" "a ! k \<noteq> b ! k"
    by (metis nth_equalityI)
  have "sqdist a b = (\<Sum>k<D. (a ! k - b ! k)\<^sup>2)"
    unfolding sqdist_def using assms(1,2) by (rule sum_list_squares)
  moreover have "0 < (\<Sum>k<D. (a ! k - b ! k)\<^sup>2)"
  proof (rule sum_pos2 [of _ k])
    show "finite {..<D}" by simp
    show "k \<in> {..<D}" using k(1) by simp
    show "0 < (a ! k - b ! k)\<^sup>2" using k(2) by simp
    show "\<And>i. i \<in> {..<D} \<Longrightarrow> 0 \<le> (a ! i - b ! i)\<^sup>2" by simp
  qed
  ultimately show ?thesis by simp
qed

lemma forcas_returns:
  assumes init: "RK4_init ms step grav d = Inr self"
    and lenR: "length R = length ms" and ne: "R \<noteq> []"
    and rows: "\<forall>Ri \<in> set R. length Ri = length (hd R)"
    and apart: "\<forall>i<length ms. \<forall>j<length ms. i \<noteq> j \<longrightarrow> R ! i \<noteq> R ! j"
  shows "\<exists>F FS. forcas self R = Inr (F, FS)"
proof -
  note fields = RK4_init_fields [OF init]
  have n: "0 < length ms" using lenR ne by auto
  have nor: "norma_of self R =
       map (\<lambda>i. map (\<lambda>j. sqdist (R ! i) (R ! j) powr (3 / 2) + (if i = j then 1 else 0))
                     [0..<length ms]) [0..<length ms]"
    using fields(6,7) lenR n by (rule norma_of_eq)
  have pos: "sqdist (R ! i) (R ! j) powr (3 / 2) + (if i = j then 1 else 0) \<noteq> 0"
    if "i < length ms" "j < length ms" for i j
  proof (cases "i = j")
    case True
    have "0 \<le> sqdist (R ! i) (R ! j) powr (3 / 2)" by simp
    then have "0 < sqdist (R ! i) (R ! j) powr (3 / 2) + 1" by linarith
    then show ?thesis using True by auto
  next
    case False
    have "length (R ! i) = length (hd R)" "length (R ! j) = length (hd R)"
      using rows that lenR by (metis nth_mem)+
    moreover have "R ! i \<noteq> R ! j" using apart that False by blast
    ultimately have "0 < sqdist (R ! i) (R ! j)" by (rule sqdist_pos)
    then show ?thesis using False by simp
  qed
  have "\<not> (\<exists>row \<in> set (norma_of self R). 0 \<in> set row)"
    unfolding nor using pos by (auto simp: in_set_conv_nth)
  then obtain F0 where td: "true_divide (prodM self) (norma_of self R) = Inr F0"
    by (simp add: true_divide_def)
  let ?F = "scale3 (G self) (einsum_ij_ijk F0 (difX_of self R))"
  have "length F0 = length ms"
    using true_divide_Inr(1) [OF td] by (simp add: fields(8) nor)
  moreover have "length (difX_of self R) = length ms"
    using fields(6) lenR n by (simp add: difX_of_eq)
  ultimately have "length ?F = length ms"
    by (simp add: scale3_def length_einsum_ij_ijk)
  then have "?F \<noteq> []" using n by auto
  then obtain FS where ps: "py_sum ?F = Inr FS"
    by (cases ?F) (simp_all add: py_sum_def)
  have q: "length R = qntd self" using lenR fields(1) by simp
  have "forcas self R = Inr (?F, FS)"
    unfolding forcas_body [OF ne q rows] by (simp add: td ps)
  then show ?thesis by blast
qed

section \<open>One step and the loop\<close>

lemma runge_kutta4_guard:
  assumes "runge_kutta4 self R P FS = Inr x"
  shows "same_shape P (massasDuplicadasInvertidas self)"
    and "same_shape R (massasDuplicadasInvertidas self)"
    and "same_shape FS (massasDuplicadasInvertidas self)"
proof -
  let ?W = "massasDuplicadasInvertidas self"
  have "same_shape P ?W \<and> same_shape R ?W \<and> same_shape FS ?W"
  proof (rule ccontr)
    assume "\<not> (same_shape P ?W \<and> same_shape R ?W \<and> same_shape FS ?W)"
    then have "runge_kutta4 self R P FS = Inl ShapeError"
      by (simp add: runge_kutta4_def)
    with assms show False by simp
  qed
  then show "same_shape P ?W" and "same_shape R ?W" and "same_shape FS ?W"
    by blast+
qed

lemma runge_kutta4_entries:
  assumes rk: "runge_kutta4 self R P FS = Inr (R', P')"
    and i: "i < length (massasDuplicadasInvertidas self)"
    and k: "k < length (massasDuplicadasInvertidas self ! i)"
  defines "w \<equiv> massasDuplicadasInvertidas self ! i ! k"
  shows "R' ! i ! k = R ! i ! k + (h self / 6) *
           (6 * (P ! i ! k * w) + 3 * h self * (P ! i ! k * w * w)
            + (h self)\<^sup>2 * (P ! i ! k * w * w * w)
            + 0.25 * (h self) ^ 3 * (P ! i ! k * w * w * w * w))"
    and "P' ! i ! k = P ! i ! k + h self * FS ! i ! k"
    and "length R' = length R" and "length (R' ! i) = length (R ! i)"
    and "length P' = length P" and "length (P' ! i) = length (P ! i)"
proof -
  let ?W = "massasDuplicadasInvertidas self"
  note g = runge_kutta4_guard [OF rk]
  have lens: "length P = length ?W" "length R = length ?W" "length FS = length ?W"
    using g by (simp_all add: same_shape_iff)
  have rows: "length (P ! i) = length (?W ! i)" "length (R ! i) = length (?W ! i)"
    "length (FS ! i) = length (?W ! i)"
    using g i by (simp_all add: same_shape_iff)
  have res: "R' = add2 R (scale2 (h self / 6)
                      (add2 (add2 (add2 (scale2 6 (mul2 P ?W)) (scale2 (3 * h self) (mul2 (mul2 P ?W) ?W)))
                                  (scale2 ((h self)\<^sup>2) (mul2 (mul2 (mul2 P ?W) ?W) ?W)))
                            (scale2 (0.25 * (h self) ^ 3) (mul2 (mul2 (mul2 (mul2 P ?W) ?W) ?W) ?W))))"
    "P' = add2 P (scale2 (h self) FS)"
    using rk g by (simp_all add: runge_kutta4_def Let_def)
  show "P' ! i ! k = P ! i ! k + h self * FS ! i ! k"
    using i k lens rows by (simp add: res nth_add2 nth_scale2 length_scale2)
  show "length P' = length P" "length (P' ! i) = length (P ! i)"
    using i lens rows by (simp_all add: res nth_add2 nth_scale2 length_scale2 length_add2)
  show "length R' = length R" "length (R' ! i) = length (R ! i)"
    using i lens rows
    by (simp_all add: res nth_add2 nth_scale2 nth_mul2 length_scale2 length_add2 length_mul2)
  show "R' ! i ! k = R ! i ! k + (h self / 6) *
           (6 * (P ! i ! k * w) + 3 * h self * (P ! i ! k * w * w)
            + (h self)\<^sup>2 * (P ! i ! k * w * w * w)
            + 0.25 * (h self) ^ 3 * (P ! i ! k * w * w * w * w))"
    using i k lens rows unfolding w_def
    by (simp add: res nth_add2 nth_scale2 nth_mul2 length_scale2 length_add2 length_mul2)
qed

lemma momentum_step:
  assumes init: "RK4_init ms step grav d = Inr self" and f: "forcas self R = Inr (F, FS)"
    and rk: "runge_kutta4 self R P FS = Inr (R', P')" and k: "k < nat d"
  shows "(\<Sum>i<length ms. P' ! i ! k) = (\<Sum>i<length ms. P ! i ! k)"
proof -
  note fields = RK4_init_fields [OF init]
  note fr = forcas_Inr [OF init f]
  have lenW: "length (massasDuplicadasInvertidas self) = length ms"
    by (simp add: fields(9))
  have rowW: "length (massasDuplicadasInvertidas self ! i) = nat d" if "i < length ms" for i
    using that by (simp add: fields(9))
  have "same_shape FS (massasDuplicadasInvertidas self)"
    using rk by (rule runge_kutta4_guard)
  then have "length (FS ! 0) = length (massasDuplicadasInvertidas self ! 0)"
    using fr(2) lenW by (simp add: same_shape_iff)
  moreover have "length (FS ! 0) = length (hd R)"
    using fr(9) fr(2) by blast
  ultimately have D: "length (hd R) = nat d"
    using rowW [OF fr(2)] by simp
  have "(\<Sum>i<length ms. P' ! i ! k) = (\<Sum>i<length ms. P ! i ! k + h self * FS ! i ! k)"
  proof (intro sum.cong refl)
    fix i assume "i \<in> {..<length ms}"
    then have i: "i < length ms" by simp
    show "P' ! i ! k = P ! i ! k + h self * FS ! i ! k"
      using rk by (rule runge_kutta4_entries(2)) (simp_all add: lenW rowW i k)
  qed
  also have "\<dots> = (\<Sum>i<length ms. P ! i ! k) + h self * (\<Sum>i<length ms. FS ! i ! k)"
    by (simp add: sum.distrib sum_distrib_left)
  also have "(\<Sum>i<length ms. FS ! i ! k) = 0"
    using init f by (rule net_force_total_zero) (simp add: D k)
  finally show ?thesis by simp
qed

lemma momentum_loop:
  assumes init: "RK4_init ms step grav d = Inr self" and k: "k < nat d"
  shows "aplicar_loop self m R P Fo = Inr (R', P', Fo') \<Longrightarrow>
         (\<Sum>i<length ms. P' ! i ! k) = (\<Sum>i<length ms. P ! i ! k)"
proof (induction m arbitrary: R P Fo)
  case 0
  then show ?case by simp
next
  case (Suc m)
  from Suc.prems obtain F FS where f: "forcas self R = Inr (F, FS)"
    by (cases "forcas self R") auto
  from Suc.prems f obtain R1 P1 where rk: "runge_kutta4 self R P FS = Inr (R1, P1)"
    by (cases "runge_kutta4 self R P FS") auto
  from Suc.prems f rk have "aplicar_loop self m R1 P1 (Some F) = Inr (R', P', Fo')"
    by simp
  then have "(\<Sum>i<length ms. P' ! i ! k) = (\<Sum>i<length ms. P1 ! i ! k)"
    by (rule Suc.IH)
  also have "\<dots> = (\<Sum>i<length ms. P ! i ! k)"
    using init f rk k by (rule momentum_step)
  finally show ?case .
qed

lemma aplicarNVezes_loop:
  assumes "aplicarNVezes self R P n E = Inr (R', P', F)"
  shows "aplicar_loop self (nat n) R P None = Inr (R', P', Some F)"
proof (cases "aplicar_loop self (nat n) R P None")
  case (Inl e)
  with assms show ?thesis by (simp add: aplicarNVezes_def)
next
  case (Inr x)
  obtain R1 P1 Fo where x: "x = (R1, P1, Fo)" by (cases x) auto
  with assms Inr show ?thesis
    by (cases Fo) (simp_all add: aplicarNVezes_def)
qed

section \<open>The two-body scenario, evaluated\<close>

lemma four_powr: "(4::real) powr (3 / 2) = 8"
proof -
  have "(4::real) powr (3 / 2) = (2 powr 2) powr (3 / 2)" by simp
  also have "\<dots> = 2 powr 3" by (simp only: powr_powr) simp
  finally show ?thesis by simp
qed

lemma two_body_init: "RK4_init [1, 1] (1 / 100) 1 1 = Inr two_body"
  by (simp add: RK4_init_eq ones_def identity_def upt_rec[of 0] numeral_2_eq_2)

lemma two_body_difX:
  "difX_of two_body [[- 1], [1]] =
     [[[0], [- 2]], [[2], [0]]]"
  by (simp add: difX_of_def einsum_ij_ijk_def bcast_def sub3_def transpose_np_def)

lemma two_body_norma:
  "norma_of two_body [[- 1], [1]] =
     [[1, 8], [8, 1]]"
  by (simp add: norma_of_def two_body_difX einsum_ijk_ijk_ij_def power2d_def add2_def four_powr)

lemma two_body_forcas:
  "forcas two_body [[- 1], [1]] =
     Inr ([[[0], [- (1 / 4)]], [[1 / 4], [0]]], [[1 / 4], [- (1 / 4)]])"
  by (simp add: forcas_def two_body_difX two_body_norma true_divide_def scale3_def
      einsum_ij_ijk_def bcast_def py_sum_def add2_def)

lemma two_body_step:
  "runge_kutta4 two_body [[- 1], [1]] [[0], [0]] [[1 / 4], [- (1 / 4)]]
   = Inr ([[- 1], [1]], [[1 / 400], [- (1 / 400)]])"
  by (simp add: runge_kutta4_def same_shape_def mul2_def add2_def scale2_def)

lemma two_body_one:
  "aplicarNVezes two_body [[- 1], [1]] [[0], [0]] 1 E
   = Inr ([[- 1], [1]], [[1 / 400], [- (1 / 400)]], [[[0], [- (1 / 4)]], [[1 / 4], [0]]])"
  by (simp add: aplicarNVezes_def two_body_forcas two_body_step)

lemma two_body_second_step:
  "runge_kutta4 two_body [[- 1], [1]] [[1 / 400], [- (1 / 400)]] [[1 / 4], [- (1 / 4)]]
   = Inr ([[- 1 + 24120401 / 960000000000], [1 - 24120401 / 960000000000]],
          [[1 / 200], [- (1 / 200)]])"
  by (simp add: runge_kutta4_def same_shape_def mul2_def add2_def scale2_def power2_eq_square power3_eq_cube)

lemma two_body_two:
  "aplicarNVezes two_body [[- 1], [1]] [[0], [0]] 2 E
   = Inr ([[- 1 + 24120401 / 960000000000], [1 - 24120401 / 960000000000]],
          [[1 / 200], [- (1 / 200)]], [[[0], [- (1 / 4)]], [[1 / 4], [0]]])"
proof -
  have "aplicar_loop two_body (Suc (Suc 0)) [[- 1], [1]] [[0], [0]] None
        = Inr ([[- 1 + 24120401 / 960000000000], [1 - 24120401 / 960000000000]],
               [[1 / 200], [- (1 / 200)]], Some [[[0], [- (1 / 4)]], [[1 / 4], [0]]])"
    by (simp add: two_body_forcas two_body_step two_body_second_step)
  moreover have "nat 2 = Suc (Suc 0)" by simp
  ultimately show ?thesis
    by (simp only: aplicarNVezes_def sum.case prod.case option.case)
qed

section \<open>The claims about the constructor\<close>

text \<open>
  Claim C1 (as amended). The constructor has no mass validation and raises no
  \<^verbatim>\<open>InvalidMass\<close>. It fails exactly when the dimension is positive and some mass is
  zero, and then with Python's \<^verbatim>\<open>ZeroDivisionError\<close> from \<^verbatim>\<open>1/mi\<close>. A negative
  mass and the empty mass list are accepted.
\<close>

theorem RK4_init_fails_iff:
  "RK4_init ms step grav d = Inl e \<longleftrightarrow> e = ZeroDivisionError \<and> 0 < d \<and> 0 \<in> set ms"
  by (auto simp: RK4_init_eq)

theorem RK4_init_fails_iff_witness:
  "RK4_init [1, 0, 3] (1 / 20) 1 3 = Inl ZeroDivisionError
   \<and> RK4_init [1, 0, 3] (1 / 20) 1 0 \<noteq> Inl ZeroDivisionError
   \<and> RK4_init [] (1 / 20) 1 3 \<noteq> Inl ZeroDivisionError"
  using RK4_init_fails_iff [of "[1, 0, 3]" "1 / 20" 1 3 ZeroDivisionError]
    RK4_init_fails_iff [of "[1, 0, 3]" "1 / 20" 1 0 ZeroDivisionError]
    RK4_init_fails_iff [of "[]" "1 / 20" 1 3 ZeroDivisionError]
  by simp

text \<open>
  Claim C1 as stated fails: with the masses \<open>[1.0, -2.0, 3.0]\<close> and the defaults
  \<open>h = 0.05\<close>, \<open>G = 1\<close>, \<open>dimensao = 3\<close> the constructor returns an integrator.
\<close>

theorem RK4_init_negative_mass_counterexample:
  "RK4_init [1, - 2, 3] (1 / 20) 1 3 =
     Inr \<lparr>dimensao = 3, qntd = 3, h = 1 / 20, G = 1, massas = [1, - 2, 3],
          massasDuplicadasInvertidas =
            [[1, 1, 1], [- (1 / 2), - (1 / 2), - (1 / 2)], [1 / 3, 1 / 3, 1 / 3]],
          prodM = [[0, - 2, 3], [- 2, 0, - 6], [3, - 6, 0]],
          vetorUm = [[1, 1, 1], [1, 1, 1], [1, 1, 1]],
          identidade = [[1, 0, 0], [0, 1, 0], [0, 0, 1]]\<rparr>"
  by (simp add: RK4_init_eq ones_def identity_def upt_rec[of 0] numeral_3_eq_3)

text \<open>
  Claim C9. The matrix \<^verbatim>\<open>prodM\<close> built by the constructor is N x N, its entry
  \<open>[i][j]\<close> is \<open>masses[i] * masses[j]\<close> off the diagonal and 0 on it, and it is
  symmetric.
\<close>

theorem prodM_entries:
  assumes "RK4_init ms step grav d = Inr self" and "i < length ms" and "j < length ms"
  shows "length (prodM self) = length ms \<and> length (prodM self ! i) = length ms
         \<and> prodM self ! i ! j = (if i = j then 0 else ms ! i * ms ! j)
         \<and> prodM self ! i ! j = prodM self ! j ! i"
  using assms by (auto simp: RK4_init_eq split: if_splits)

theorem prodM_entries_witness:
  "RK4_init [2, 3, 5] (1 / 20) 1 3 =
     Inr \<lparr>dimensao = 3, qntd = 3, h = 1 / 20, G = 1, massas = [2, 3, 5],
          massasDuplicadasInvertidas =
            [[1 / 2, 1 / 2, 1 / 2], [1 / 3, 1 / 3, 1 / 3], [1 / 5, 1 / 5, 1 / 5]],
          prodM = [[0, 6, 10], [6, 0, 15], [10, 15, 0]],
          vetorUm = [[1, 1, 1], [1, 1, 1], [1, 1, 1]],
          identidade = [[1, 0, 0], [0, 1, 0], [0, 0, 1]]\<rparr>
   \<and> [[0, 6, 10], [6, 0, 15], [10, 15, 0]] ! 0 ! 2 = (2 * 5 :: real)
   \<and> [[0, 6, 10], [6, 0, 15], [10, 15, 0]] ! 2 ! 0 = (2 * 5 :: real)"
proof -
  have init: "RK4_init [2, 3, 5] (1 / 20) 1 3 =
     Inr \<lparr>dimensao = 3, qntd = 3, h = 1 / 20, G = 1, massas = [2, 3, 5],
          massasDuplicadasInvertidas =
            [[1 / 2, 1 / 2, 1 / 2], [1 / 3, 1 / 3, 1 / 3], [1 / 5, 1 / 5, 1 / 5]],
          prodM = [[0, 6, 10], [6, 0, 15], [10, 15, 0]],
          vetorUm = [[1, 1, 1], [1, 1, 1], [1, 1, 1]],
          identidade = [[1, 0, 0], [0, 1, 0], [0, 0, 1]]\<rparr>"
    by (simp add: RK4_init_eq ones_def identity_def upt_rec[of 0] numeral_3_eq_3)
  show ?thesis
    using init prodM_entries [OF init, of 0 2] by simp
qed

section \<open>The claims about the forces\<close>

text \<open>
  Claim C5. Where \<^verbatim>\<open>forcas\<close> returns, the denominator \<open>[i][j]\<close> is the squared
  Euclidean distance of the positions \<open>i\<close> and \<open>j\<close> to the power 1.5 plus the entry
  of the identity matrix, it is not zero, the force entry \<open>[i][j][k]\<close> is
  \<open>G * prodM[i][j] * (R[i][k] - R[j][k]) / denominator[i][j]\<close>, every diagonal
  denominator is exactly 1 and every diagonal force entry is exactly 0.
\<close>

theorem forcas_pairwise_formula:
  assumes "RK4_init ms step grav d = Inr self" and "forcas self R = Inr (F, FS)"
    and "i < length ms" and "j < length ms" and "k < length (hd R)"
  shows "norma_of self R ! i ! j =
           (\<Sum>k'<length (hd R). (R ! i ! k' - R ! j ! k')\<^sup>2) powr (3 / 2)
           + (if i = j then 1 else 0)
         \<and> norma_of self R ! i ! j \<noteq> 0
         \<and> F ! i ! j ! k =
             G self * prodM self ! i ! j * (R ! i ! k - R ! j ! k) / norma_of self R ! i ! j
         \<and> norma_of self R ! i ! i = 1
         \<and> F ! i ! i ! k = 0"
proof -
  note init = assms(1) and f = assms(2) and i = assms(3) and j = assms(4) and k = assms(5)
  have g: "G self = grav" using init by (rule RK4_init_fields(2))
  have n1: "norma_of self R ! i ! j =
           (\<Sum>k'<length (hd R). (R ! i ! k' - R ! j ! k')\<^sup>2) powr (3 / 2)
           + (if i = j then 1 else 0)"
    using init f i j by (rule norma_entry)
  have n2: "norma_of self R ! i ! j \<noteq> 0"
    using forcas_Inr(4) [OF init f] i j by blast
  have n3: "norma_of self R ! i ! i = 1"
    using norma_entry [OF init f i i] by simp
  have f1: "F ! i ! j ! k =
             G self * prodM self ! i ! j * (R ! i ! k - R ! j ! k) / norma_of self R ! i ! j"
    unfolding force_component [OF init f i j k] g by simp
  have f2: "F ! i ! i ! k = 0"
    unfolding force_component [OF init f i i k] by simp
  from n1 n2 f1 n3 f2 show ?thesis by blast
qed

theorem forcas_pairwise_formula_witness:
  "RK4_init [1, 1] (1 / 100) 1 1 = Inr two_body
   \<and> forcas two_body [[- 1], [1]]
       = Inr ([[[0], [- (1 / 4)]], [[1 / 4], [0]]], [[1 / 4], [- (1 / 4)]])
   \<and> norma_of two_body [[- 1], [1]] ! 0 ! 1 = ((- 1 - 1)\<^sup>2) powr (3 / 2) + 0
   \<and> [[[0], [- (1 / 4)]], [[1 / 4], [0 :: real]]] ! 0 ! 1 ! 0
       = 1 * [[0, 1], [1, 0]] ! 0 ! 1 * (- 1 - 1) / norma_of two_body [[- 1], [1]] ! 0 ! 1
   \<and> norma_of two_body [[- 1], [1]] ! 0 ! 0 = 1"
  using forcas_pairwise_formula [OF two_body_init two_body_forcas, of 0 1 0]
    two_body_init two_body_forcas
  by simp

text \<open>
  Claim C6. The pairwise force tensor is antisymmetric, \<open>F[i][j] = - F[j][i]\<close> as
  vectors, and \<open>F[i][i]\<close> is the zero vector.
\<close>

theorem forcas_antisymmetric:
  assumes "RK4_init ms step grav d = Inr self" and "forcas self R = Inr (F, FS)"
    and "i < length ms" and "j < length ms"
  shows "F ! i ! j = map uminus (F ! j ! i) \<and> F ! i ! i = replicate (length (hd R)) 0"
proof
  note init = assms(1) and f = assms(2) and i = assms(3) and j = assms(4)
  show "F ! i ! j = map uminus (F ! j ! i)"
  proof (rule nth_equalityI)
    show "length (F ! i ! j) = length (map uminus (F ! j ! i))"
      by (simp add: force_length [OF init f i j] force_length [OF init f j i])
  next
    fix k assume "k < length (F ! i ! j)"
    then have k: "k < length (hd R)"
      by (simp add: force_length [OF init f i j])
    then show "F ! i ! j ! k = map uminus (F ! j ! i) ! k"
      using force_antisymmetric_entry [OF init f i j k]
      by (simp add: force_length [OF init f j i])
  qed
  show "F ! i ! i = replicate (length (hd R)) 0"
  proof (rule nth_equalityI)
    show "length (F ! i ! i) = length (replicate (length (hd R)) (0 :: real))"
      by (simp add: force_length [OF init f i i])
  next
    fix k assume "k < length (F ! i ! i)"
    then have k: "k < length (hd R)"
      by (simp add: force_length [OF init f i i])
    then show "F ! i ! i ! k = replicate (length (hd R)) 0 ! k"
      using force_antisymmetric_entry [OF init f i i k] by simp
  qed
qed

theorem forcas_antisymmetric_witness:
  "RK4_init [1, 1] (1 / 100) 1 1 = Inr two_body
   \<and> forcas two_body [[- 1], [1]]
       = Inr ([[[0], [- (1 / 4)]], [[1 / 4], [0]]], [[1 / 4], [- (1 / 4)]])
   \<and> [[[0], [- (1 / 4)]], [[1 / 4], [0 :: real]]] ! 0 ! 1
       = map uminus ([[[0], [- (1 / 4)]], [[1 / 4], [0]]] ! 1 ! 0)
   \<and> [[[0], [- (1 / 4)]], [[1 / 4], [0 :: real]]] ! 0 ! 0 = replicate (length (hd [[- 1], [1 :: real]])) 0"
  using forcas_antisymmetric [OF two_body_init two_body_forcas, of 0 1]
    two_body_init two_body_forcas
  by simp

text \<open>
  Claim C3 (as amended). The net force on particle \<open>i\<close> is the sum over the first
  index of the tensor, \<open>FSomas[i] = sum over j of F[j][i]\<close> (Python's \<^verbatim>\<open>sum(F)\<close> adds the
  slices \<open>F[0], F[1], ...\<close>). By antisymmetry this is the negative of the sum over the
  second index.
\<close>

theorem forcas_net_force_first_axis:
  assumes "RK4_init ms step grav d = Inr self" and "forcas self R = Inr (F, FS)"
    and "i < length ms" and "k < length (hd R)"
  shows "FS ! i ! k = (\<Sum>j<length ms. F ! j ! i ! k)
         \<and> FS ! i ! k = - (\<Sum>j<length ms. F ! i ! j ! k)"
proof -
  note init = assms(1) and f = assms(2) and i = assms(3) and k = assms(4)
  have a: "FS ! i ! k = (\<Sum>j<length ms. F ! j ! i ! k)"
    using init f i k by (rule net_force_entry)
  have "(\<Sum>j<length ms. F ! j ! i ! k) = (\<Sum>j<length ms. - F ! i ! j ! k)"
  proof (intro sum.cong refl)
    fix j assume "j \<in> {..<length ms}"
    then have "j < length ms" by simp
    then show "F ! j ! i ! k = - F ! i ! j ! k"
      using init f i k by (intro force_antisymmetric_entry)
  qed
  then have "(\<Sum>j<length ms. F ! j ! i ! k) = - (\<Sum>j<length ms. F ! i ! j ! k)"
    by (simp add: sum_negf)
  with a show ?thesis by simp
qed

theorem forcas_net_force_first_axis_witness:
  "RK4_init [1, 1] (1 / 100) 1 1 = Inr two_body
   \<and> forcas two_body [[- 1], [1]]
       = Inr ([[[0], [- (1 / 4)]], [[1 / 4], [0]]], [[1 / 4], [- (1 / 4)]])
   \<and> [[1 / 4], [- (1 / 4 :: real)]] ! 0 ! 0
       = (\<Sum>j<length [1, 1 :: real]. [[[0], [- (1 / 4)]], [[1 / 4], [0]]] ! j ! 0 ! 0)
   \<and> [[1 / 4], [- (1 / 4 :: real)]] ! 0 ! 0
       = - (\<Sum>j<length [1, 1 :: real]. [[[0], [- (1 / 4)]], [[1 / 4], [0]]] ! 0 ! j ! 0)"
  using forcas_net_force_first_axis [OF two_body_init two_body_forcas, of 0 0]
    two_body_init two_body_forcas
  by simp

text \<open>
  Claim C3 as stated fails: in the two-body scenario the net force on particle 0 is
  \<open>1/4\<close> (towards particle 1), while the sum over the second index of \<open>F[0][j]\<close> is
  \<open>- 1/4\<close>.
\<close>

theorem forcas_net_force_second_axis_counterexample:
  "forcas two_body [[- 1], [1]]
     = Inr ([[[0], [- (1 / 4)]], [[1 / 4], [0]]], [[1 / 4], [- (1 / 4)]])
   \<and> [[1 / 4], [- (1 / 4 :: real)]] ! 0 ! 0 = 1 / 4
   \<and> (\<Sum>j<2. [[[0], [- (1 / 4)]], [[1 / 4], [0 :: real]]] ! 0 ! j ! 0) = - (1 / 4)
   \<and> [[1 / 4], [- (1 / 4 :: real)]] ! 0 ! 0
       \<noteq> (\<Sum>j<2. [[[0], [- (1 / 4)]], [[1 / 4], [0 :: real]]] ! 0 ! j ! 0)"
proof -
  have "{..<2 :: nat} = {0, 1}" by auto
  then show ?thesis by (simp add: two_body_forcas)
qed

section \<open>The claims about stepping\<close>

text \<open>
  Claim C8. Where \<^verbatim>\<open>runge_kutta4\<close> returns, with \<open>w = 1 / masses[i]\<close> the entry of the
  inverse-mass array, \<open>k1 = P[i][k] * w\<close> and each further term the previous one times
  \<open>w\<close>, the new position is
  \<open>R[i][k] + (h/6) * (6 k1 + 3 h k1_1 + h^2 k1_2 + 0.25 h^3 k1_3)\<close> and the new momentum
  is \<open>P[i][k] + h * FSomas[i][k]\<close>.
\<close>

theorem runge_kutta4_formula:
  assumes "RK4_init ms step grav d = Inr self" and "runge_kutta4 self R P FS = Inr (R', P')"
    and "i < length ms" and "k < nat d"
  shows "(let w = massasDuplicadasInvertidas self ! i ! k;
              k1 = P ! i ! k * w; k1_1 = k1 * w; k1_2 = k1_1 * w; k1_3 = k1_2 * w
          in w = 1 / ms ! i
             \<and> R' ! i ! k = R ! i ! k + (h self / 6) *
                  (6 * k1 + 3 * h self * k1_1 + (h self)\<^sup>2 * k1_2 + 0.25 * (h self) ^ 3 * k1_3)
             \<and> P' ! i ! k = P ! i ! k + h self * FS ! i ! k)
         \<and> h self = step"
proof -
  note init = assms(1) and rk = assms(2) and i = assms(3) and k = assms(4)
  note fields = RK4_init_fields [OF init]
  have iW: "i < length (massasDuplicadasInvertidas self)"
    using i by (simp add: fields(9))
  have kW: "k < length (massasDuplicadasInvertidas self ! i)"
    using i k by (simp add: fields(9))
  have w: "massasDuplicadasInvertidas self ! i ! k = 1 / ms ! i"
    using i k by (simp add: fields(9))
  note e = runge_kutta4_entries(1,2) [OF rk iW kW]
  show ?thesis
    unfolding Let_def using w e fields(3) by simp
qed

theorem runge_kutta4_formula_witness:
  "RK4_init [1, 1] (1 / 100) 1 1 = Inr two_body
   \<and> runge_kutta4 two_body [[- 1], [1]] [[1 / 400], [- (1 / 400)]] [[1 / 4], [- (1 / 4)]]
       = Inr ([[- 1 + 24120401 / 960000000000], [1 - 24120401 / 960000000000]],
              [[1 / 200], [- (1 / 200)]])
   \<and> [[- 1 + 24120401 / 960000000000], [1 - 24120401 / 960000000000 :: real]] ! 0 ! 0
       = - 1 + (1 / 100 / 6) *
           (6 * (1 / 400) + 3 * (1 / 100) * (1 / 400) + (1 / 100)\<^sup>2 * (1 / 400)
            + 0.25 * (1 / 100) ^ 3 * (1 / 400))
   \<and> [[1 / 200], [- (1 / 200 :: real)]] ! 0 ! 0 = 1 / 400 + 1 / 100 * (1 / 4)"
  using runge_kutta4_formula [OF two_body_init two_body_second_step, of 0 0]
    two_body_init two_body_second_step
  by (simp add: Let_def)

text \<open>
  Claim C7. Whenever \<^verbatim>\<open>aplicarNVezes\<close> returns, each component \<open>k\<close> of the total
  momentum, the sum over the particles of \<open>P[i][k]\<close>, is the same after the \<open>n\<close> steps
  as before, and the net forces that \<^verbatim>\<open>forcas\<close> returns sum to zero over the particles.
\<close>

theorem total_momentum_invariant:
  assumes "RK4_init ms step grav d = Inr self"
    and "aplicarNVezes self R P n E = Inr (R', P', F')" and "k < nat d"
  shows "(\<Sum>i<length ms. P' ! i ! k) = (\<Sum>i<length ms. P ! i ! k)
         \<and> (\<forall>R0 F0 FS0. forcas self R0 = Inr (F0, FS0) \<and> k < length (hd R0)
                \<longrightarrow> (\<Sum>i<length ms. FS0 ! i ! k) = 0)"
proof
  note init = assms(1) and run = assms(2) and k = assms(3)
  have "aplicar_loop self (nat n) R P None = Inr (R', P', Some F')"
    using run by (rule aplicarNVezes_loop)
  with init k show "(\<Sum>i<length ms. P' ! i ! k) = (\<Sum>i<length ms. P ! i ! k)"
    by (rule momentum_loop)
  show "\<forall>R0 F0 FS0. forcas self R0 = Inr (F0, FS0) \<and> k < length (hd R0)
                \<longrightarrow> (\<Sum>i<length ms. FS0 ! i ! k) = 0"
    using init by (blast intro: net_force_total_zero)
qed

theorem total_momentum_invariant_witness:
  "RK4_init [1, 1] (1 / 100) 1 1 = Inr two_body
   \<and> aplicarNVezes two_body [[- 1], [1]] [[0], [0]] 2 (0 :: real)
       = Inr ([[- 1 + 24120401 / 960000000000], [1 - 24120401 / 960000000000]],
              [[1 / 200], [- (1 / 200)]], [[[0], [- (1 / 4)]], [[1 / 4], [0]]])
   \<and> (\<Sum>i<length [1, 1 :: real]. [[1 / 200], [- (1 / 200 :: real)]] ! i ! 0)
       = (\<Sum>i<length [1, 1 :: real]. [[0], [0 :: real]] ! i ! 0)"
  using total_momentum_invariant [OF two_body_init two_body_two [of "0 :: real"], of 0]
    two_body_init two_body_two [of "0 :: real"]
  by simp

text \<open>
  Claim C4 (as amended). In the two-body scenario one step gives the momenta
  \<open>0.0025\<close> and \<open>- 0.0025\<close>: equal in magnitude, opposite in sign, each towards the
  other particle. The positions after that step are the initial ones, at separation
  exactly 2, since the position update uses the momenta before the step, which are 0.
  After the second step the separation is strictly smaller than 2.
\<close>

theorem two_body_steps:
  "RK4_init [1, 1] (1 / 100) 1 1 = Inr two_body
   \<and> aplicarNVezes two_body [[- 1], [1]] [[0], [0]] 1 (0 :: real)
       = Inr ([[- 1], [1]], [[1 / 400], [- (1 / 400)]], [[[0], [- (1 / 4)]], [[1 / 4], [0]]])
   \<and> [[1 / 400], [- (1 / 400 :: real)]] ! 1 ! 0 = - ([[1 / 400], [- (1 / 400)]] ! 0 ! 0)
   \<and> 0 < [[1 / 400], [- (1 / 400 :: real)]] ! 0 ! 0
   \<and> \<bar>[[- 1], [1 :: real]] ! 1 ! 0 - [[- 1], [1]] ! 0 ! 0\<bar> = 2
   \<and> aplicarNVezes two_body [[- 1], [1]] [[0], [0]] 2 (0 :: real)
       = Inr ([[- 1 + 24120401 / 960000000000], [1 - 24120401 / 960000000000]],
              [[1 / 200], [- (1 / 200)]], [[[0], [- (1 / 4)]], [[1 / 4], [0]]])
   \<and> \<bar>[[- 1 + 24120401 / 960000000000], [1 - 24120401 / 960000000000 :: real]] ! 1 ! 0
        - [[- 1 + 24120401 / 960000000000], [1 - 24120401 / 960000000000]] ! 0 ! 0\<bar> < 2"
  using two_body_init two_body_one [of "0 :: real"] two_body_two [of "0 :: real"] by simp

text \<open>
  Claim C4 as stated fails: after one step the separation of the two particles is not
  strictly smaller than 2.
\<close>

theorem two_body_one_step_counterexample:
  "aplicarNVezes two_body [[- 1], [1]] [[0], [0]] 1 (0 :: real)
     = Inr ([[- 1], [1]], [[1 / 400], [- (1 / 400)]], [[[0], [- (1 / 4)]], [[1 / 4], [0]]])
   \<and> \<not> \<bar>[[- 1], [1 :: real]] ! 1 ! 0 - [[- 1], [1]] ! 0 ! 0\<bar> < 2"
  using two_body_one [of "0 :: real"] by simp

section \<open>The claims about \<^verbatim>\<open>aplicarNVezes\<close>\<close>

text \<open>
  Claim C2, on the code: with \<open>n = 0\<close> (or a negative \<open>n\<close>) the loop body never
  runs, the local \<^verbatim>\<open>F\<close> is never bound, and \<^verbatim>\<open>return R, P, F\<close> raises
  \<^verbatim>\<open>UnboundLocalError\<close>: no positions, momenta or sentinel are returned.
\<close>

theorem aplicarNVezes_no_steps:
  "n \<le> 0 \<Longrightarrow> aplicarNVezes self R P n E = Inl UnboundLocalError"
  by (simp add: aplicarNVezes_def)

theorem aplicarNVezes_no_steps_witness:
  "aplicarNVezes two_body [[- 1], [1]] [[0], [0]] 0 (0 :: real) = Inl UnboundLocalError"
  using aplicarNVezes_no_steps [of 0] by simp

text \<open>
  Claim C10. The parameter \<^verbatim>\<open>E\<close> of \<^verbatim>\<open>aplicarNVezes\<close> has no effect on the
  result: any two values of it give the same outcome (the same error, or the same
  positions, momenta and forces).
\<close>

theorem aplicarNVezes_ignores_E:
  "aplicarNVezes self R P n E = aplicarNVezes self R P n E'"
  by (simp add: aplicarNVezes_def)

end
